theory Spec2Isabelle
  imports Main
begin

section \<open>Data model\<close>

text \<open>
  The booking API keeps two tables, \<open>providers\<close> and \<open>bookings\<close>, behind a
  repository layer and a service layer. The embedding below follows
  \<^verbatim>\<open>app/models\<close>, \<^verbatim>\<open>app/schemas\<close>, \<^verbatim>\<open>app/repositories\<close> and
  \<^verbatim>\<open>app/services\<close>.

  \<^item> A Python \<open>str\<close> is a sequence of Unicode code points, so it is a list of
    naturals here: lengths count code points, as Pydantic's \<open>min_length\<close> does.
  \<^item> A \<open>datetime\<close> is a naive UTC instant, the kind \<open>datetime.utcnow()\<close>
    returns and a \<open>DateTime\<close> column holds, counted in microseconds. Naive
    datetimes are totally ordered and compared with \<open><\<close>, \<open>\<le>\<close>.
  \<^item> A datetime of a creation request is a \<open>request_datetime\<close>: naive or
    offset-aware, whichever the ISO 8601 text of the request gave.
  \<^item> The wall clock is not part of the state: every reading of
    \<open>datetime.utcnow()\<close> is a parameter of the function that takes it.
\<close>

type_synonym str = "nat list"
type_synonym datetime = int

text \<open>
  Pydantic parses \<open>scheduled_at: datetime\<close> from ISO 8601: text without an
  offset gives a naive datetime, text with \<open>Z\<close> or an offset gives an
  offset-aware one. Python refuses to order a naive and an aware datetime.
  \<open>Aware t\<close> carries the naive instant \<open>t\<close> that a \<open>DateTime\<close> column holds
  once the value is stored.
\<close>

datatype request_datetime = Naive datetime | Aware datetime

text \<open>\<^verbatim>\<open>class BookingStatus(str, enum.Enum)\<close> in \<^verbatim>\<open>app/models/booking.py\<close>.\<close>

datatype BookingStatus = PENDING | CONFIRMED | COMPLETED | CANCELLED

text \<open>
  The ORM rows. \<open>nullable=True\<close> columns are options; \<open>nullable=False\<close>
  columns are plain values, and an attempt to store NULL in one is the
  \<open>IntegrityError\<close> of the operations below.
\<close>

record Provider =
  p_id :: int
  p_name :: str
  p_sector :: str
  p_phone :: "str option"
  p_email :: "str option"
  p_address :: "str option"
  p_is_active :: bool
  p_created_at :: datetime
  p_updated_at :: datetime

record Booking =
  b_id :: int
  b_provider_id :: int
  b_client_name :: str
  b_client_phone :: str
  b_client_email :: "str option"
  b_service_type :: "str option"
  b_scheduled_at :: datetime
  b_status :: BookingStatus
  b_notes :: "str option"
  b_created_at :: datetime
  b_updated_at :: datetime

text \<open>
  The creation schemas, \<open>ProviderCreate\<close> and \<open>BookingCreate\<close>. Neither has a
  \<open>status\<close>, \<open>id\<close>, \<open>is_active\<close> or timestamp field.
\<close>

record ProviderCreate =
  pc_name :: str
  pc_sector :: str
  pc_phone :: "str option"
  pc_email :: "str option"
  pc_address :: "str option"

record BookingCreate =
  bc_provider_id :: int
  bc_client_name :: str
  bc_client_phone :: str
  bc_client_email :: "str option"
  bc_service_type :: "str option"
  bc_scheduled_at :: request_datetime
  bc_notes :: "str option"

text \<open>
  The update schemas declare every field \<open>Optional\<close> with default \<open>None\<close>, and the
  repositories read them with \<open>model_dump(exclude_unset=True)\<close>: a field the
  request left out is \<open>Unset\<close>; a field the request gave is \<open>Provided v\<close>, where
  \<open>v\<close> is \<open>None\<close> for an explicit JSON \<open>null\<close>. The update path and the list
  filters never compare a datetime in Python; they hand it to the database, so
  their datetimes are the naive instants the database takes them for.
\<close>

datatype 'a field = Unset | Provided 'a

record ProviderUpdate =
  pu_name :: "str option field"
  pu_sector :: "str option field"
  pu_phone :: "str option field"
  pu_email :: "str option field"
  pu_address :: "str option field"
  pu_is_active :: "bool option field"

record BookingUpdate =
  bu_client_name :: "str option field"
  bu_client_phone :: "str option field"
  bu_client_email :: "str option field"
  bu_service_type :: "str option field"
  bu_scheduled_at :: "datetime option field"
  bu_status :: "BookingStatus option field"
  bu_notes :: "str option field"

text \<open>
  The database behind a session: the two tables in storage order and the next
  value of each primary-key sequence.
\<close>

record database =
  providers :: "Provider list"
  bookings :: "Booking list"
  next_provider_id :: int
  next_booking_id :: int

text \<open>
  Every exception the two services let escape. The first six are the
  \<open>ValueError\<close>s the services raise, one constructor per message. Then comes
  SQLAlchemy's \<open>IntegrityError\<close>, raised by \<open>commit()\<close> when a NOT NULL or
  foreign-key constraint of \<^verbatim>\<open>app/models\<close> is violated, and Python's
  \<open>TypeError\<close>, raised when an offset-aware datetime is ordered against a
  naive one. The routes catch \<open>ValueError\<close> only.
\<close>

datatype error =
    ProviderNotFound int
  | ProviderNotActive
  | ScheduledNotInFuture
  | BookingNotFound int
  | ProviderNameEmpty
  | ProviderSectorEmpty
  | IntegrityError
  | TypeError

text \<open>
  A mutating operation returns its outcome together with the database it
  leaves behind; a raised exception leaves the database it found, since
  nothing was committed.
\<close>

type_synonym 'a outcome = "(error + 'a) \<times> database"

definition is_ValueError :: "error \<Rightarrow> bool" where
  "is_ValueError e = (e \<noteq> IntegrityError \<and> e \<noteq> TypeError)"

definition datetime_lt :: "request_datetime \<Rightarrow> datetime \<Rightarrow> error + bool" where
  \<comment> \<open>\<open>x < datetime.utcnow()\<close>: the right-hand side is naive, so an aware
     left-hand side raises \<open>TypeError\<close>.\<close>
  "datetime_lt x now = (case x of Naive t \<Rightarrow> Inr (t < now) | Aware t \<Rightarrow> Inl TypeError)"

definition column_value :: "request_datetime \<Rightarrow> datetime" where
  \<comment> \<open>What a \<open>DateTime\<close> column holds after the value was stored.\<close>
  "column_value x = (case x of Naive t \<Rightarrow> t | Aware t \<Rightarrow> t)"

section \<open>Strings\<close>

text \<open>
  \<open>str.strip()\<close> without argument removes leading and trailing whitespace, the
  code points for which \<open>str.isspace\<close> holds.
\<close>

definition isspace :: "nat \<Rightarrow> bool" where
  "isspace c = ((9 \<le> c \<and> c \<le> 13) \<or> (28 \<le> c \<and> c \<le> 32) \<or> c = 133 \<or> c = 160
     \<or> c = 5760 \<or> (8192 \<le> c \<and> c \<le> 8202) \<or> c = 8232 \<or> c = 8233
     \<or> c = 8239 \<or> c = 8287 \<or> c = 12288)"

definition strip :: "str \<Rightarrow> str" where
  "strip s = rev (dropWhile isspace (rev (dropWhile isspace s)))"

text \<open>Literals are written as Isabelle strings and read as code points.\<close>

definition py :: "string \<Rightarrow> str" where
  "py s = map of_char s"

section \<open>Schema validation\<close>

text \<open>
  The \<open>Field(...)\<close> constraints of \<^verbatim>\<open>app/schemas\<close>: what the request layer has
  checked before a service is called. \<open>EmailStr\<close> is checked by an external
  library and is not constrained here.
\<close>

definition len_between :: "nat \<Rightarrow> nat \<Rightarrow> str \<Rightarrow> bool" where
  "len_between lo hi s = (lo \<le> length s \<and> length s \<le> hi)"

definition opt_ok :: "('a \<Rightarrow> bool) \<Rightarrow> 'a option \<Rightarrow> bool" where
  "opt_ok P v = (case v of None \<Rightarrow> True | Some x \<Rightarrow> P x)"

definition field_ok :: "('a \<Rightarrow> bool) \<Rightarrow> 'a option field \<Rightarrow> bool" where
  "field_ok P f = (case f of Unset \<Rightarrow> True | Provided v \<Rightarrow> opt_ok P v)"

definition ProviderCreate_valid :: "ProviderCreate \<Rightarrow> bool" where
  "ProviderCreate_valid d =
     (len_between 1 255 (pc_name d) \<and> len_between 1 100 (pc_sector d)
      \<and> opt_ok (len_between 0 50) (pc_phone d))"

definition ProviderUpdate_valid :: "ProviderUpdate \<Rightarrow> bool" where
  "ProviderUpdate_valid d =
     (field_ok (len_between 1 255) (pu_name d) \<and> field_ok (len_between 1 100) (pu_sector d)
      \<and> field_ok (len_between 0 50) (pu_phone d))"

definition BookingCreate_valid :: "BookingCreate \<Rightarrow> bool" where
  "BookingCreate_valid d =
     (len_between 1 255 (bc_client_name d) \<and> len_between 1 50 (bc_client_phone d)
      \<and> opt_ok (len_between 0 100) (bc_service_type d))"

definition BookingUpdate_valid :: "BookingUpdate \<Rightarrow> bool" where
  "BookingUpdate_valid d =
     (field_ok (len_between 1 255) (bu_client_name d)
      \<and> field_ok (len_between 1 50) (bu_client_phone d)
      \<and> field_ok (len_between 0 100) (bu_service_type d))"

section \<open>Attribute assignment\<close>

text \<open>
  \<open>for field, value in update_data.items(): setattr(row, field, value)\<close>
  assigns each provided field. For a nullable column the new value is whatever
  was provided. For a NOT NULL column a provided \<open>None\<close> makes the commit fail,
  which is the result \<open>None\<close> here.
\<close>

definition set_nullable :: "'a option field \<Rightarrow> 'a option \<Rightarrow> 'a option" where
  "set_nullable f old = (case f of Unset \<Rightarrow> old | Provided v \<Rightarrow> v)"

definition set_required :: "'a option field \<Rightarrow> 'a \<Rightarrow> 'a option" where
  "set_required f old = (case f of Unset \<Rightarrow> Some old | Provided v \<Rightarrow> v)"


definition touched :: "'a \<Rightarrow> 'a \<Rightarrow> 'a \<Rightarrow> 'a" where
  \<comment> \<open>\<open>onupdate=datetime.utcnow\<close>: the ORM writes the row, and with it a fresh
     \<open>updated_at\<close>, only when some attribute has a net change; otherwise no
     UPDATE is sent and the row stays as it is.\<close>
  "touched old new stamped = (if new = old then old else stamped)"

section \<open>Table access\<close>

text \<open>
  The primary key is unique, so the row \<open>query.filter(id == x).first()\<close> finds
  is the only one an UPDATE or DELETE of that object reaches: the first match.
\<close>

fun replace_first :: "('a \<Rightarrow> bool) \<Rightarrow> 'a \<Rightarrow> 'a list \<Rightarrow> 'a list" where
  "replace_first P y [] = []"
| "replace_first P y (x # xs) = (if P x then y # xs else x # replace_first P y xs)"


section \<open>Provider repository\<close>

definition ProviderRepository_create ::
    "ProviderCreate \<Rightarrow> datetime \<Rightarrow> datetime \<Rightarrow> database \<Rightarrow> Provider \<times> database" where
  \<comment> \<open>\<open>Provider(**data.model_dump())\<close>, \<open>add\<close>, \<open>commit\<close>, \<open>refresh\<close>. The column
     defaults fill \<open>is_active\<close> and the two timestamps (one clock reading each).\<close>
  "ProviderRepository_create d t_created t_updated s =
     (let provider = \<lparr>p_id = next_provider_id s, p_name = pc_name d, p_sector = pc_sector d,
                       p_phone = pc_phone d, p_email = pc_email d, p_address = pc_address d,
                       p_is_active = True, p_created_at = t_created, p_updated_at = t_updated\<rparr>
      in (provider, s\<lparr>providers := providers s @ [provider],
                       next_provider_id := next_provider_id s + 1\<rparr>))"

definition ProviderRepository_get_by_id :: "int \<Rightarrow> database \<Rightarrow> Provider option" where
  "ProviderRepository_get_by_id provider_id s = find (\<lambda>p. p_id p = provider_id) (providers s)"

definition ProviderRepository_list_all ::
    "nat \<Rightarrow> nat \<Rightarrow> str option \<Rightarrow> database \<Rightarrow> Provider list" where
  \<comment> \<open>\<open>if sector:\<close> is false for \<open>None\<close> and for the empty string.\<close>
  "ProviderRepository_list_all skip limit sector s =
     (let query = providers s;
          query = (case sector of
                     None \<Rightarrow> query
                   | Some x \<Rightarrow> if x = [] then query else filter (\<lambda>p. p_sector p = x) query)
      in take limit (drop skip query))"

definition Provider_setattrs :: "ProviderUpdate \<Rightarrow> Provider \<Rightarrow> Provider option" where
  \<comment> \<open>The \<open>setattr\<close> loop over the provided fields; \<open>None\<close> when a NOT NULL column
     (\<open>name\<close>, \<open>sector\<close>, \<open>is_active\<close>) was given \<open>None\<close>.\<close>
  "Provider_setattrs d p =
     (case (set_required (pu_name d) (p_name p), set_required (pu_sector d) (p_sector p),
            set_required (pu_is_active d) (p_is_active p)) of
        (Some n, Some sec, Some act) \<Rightarrow>
          Some (p\<lparr>p_name := n, p_sector := sec,
                  p_phone := set_nullable (pu_phone d) (p_phone p),
                  p_email := set_nullable (pu_email d) (p_email p),
                  p_address := set_nullable (pu_address d) (p_address p),
                  p_is_active := act\<rparr>)
      | _ \<Rightarrow> None)"

definition ProviderRepository_update ::
    "int \<Rightarrow> ProviderUpdate \<Rightarrow> datetime \<Rightarrow> database \<Rightarrow> (Provider option) outcome" where
  "ProviderRepository_update provider_id d now s =
     (case ProviderRepository_get_by_id provider_id s of
        None \<Rightarrow> (Inr None, s)
      | Some provider \<Rightarrow>
          (case Provider_setattrs d provider of
             None \<Rightarrow> (Inl IntegrityError, s)
           | Some changed \<Rightarrow>
               (let provider' = touched provider changed (changed\<lparr>p_updated_at := now\<rparr>)
                in (Inr (Some provider'),
                    s\<lparr>providers :=
                        replace_first (\<lambda>p. p_id p = provider_id) provider' (providers s)\<rparr>))))"


section \<open>Provider service\<close>

definition register_provider ::
    "ProviderCreate \<Rightarrow> datetime \<Rightarrow> datetime \<Rightarrow> database \<Rightarrow> Provider outcome" where
  "register_provider d t_created t_updated s =
     (if strip (pc_name d) = [] then (Inl ProviderNameEmpty, s)
      else if strip (pc_sector d) = [] then (Inl ProviderSectorEmpty, s)
      else (let (provider, s') = ProviderRepository_create d t_created t_updated s
            in (Inr provider, s')))"

definition get_provider :: "int \<Rightarrow> database \<Rightarrow> error + Provider" where
  "get_provider provider_id s =
     (case ProviderRepository_get_by_id provider_id s of
        None \<Rightarrow> Inl (ProviderNotFound provider_id)
      | Some provider \<Rightarrow> Inr provider)"

definition get_providers :: "nat \<Rightarrow> nat \<Rightarrow> str option \<Rightarrow> database \<Rightarrow> Provider list" where
  "get_providers skip limit sector s = ProviderRepository_list_all skip limit sector s"

definition update_provider ::
    "int \<Rightarrow> ProviderUpdate \<Rightarrow> datetime \<Rightarrow> database \<Rightarrow> Provider outcome" where
  "update_provider provider_id d now s =
     (case ProviderRepository_update provider_id d now s of
        (Inl e, s') \<Rightarrow> (Inl e, s')
      | (Inr None, s') \<Rightarrow> (Inl (ProviderNotFound provider_id), s')
      | (Inr (Some provider), s') \<Rightarrow> (Inr provider, s'))"


section \<open>Booking repository\<close>

definition BookingRepository_create ::
    "BookingCreate \<Rightarrow> datetime \<Rightarrow> datetime \<Rightarrow> database \<Rightarrow> Booking \<times> database" where
  \<comment> \<open>\<open>Booking(**data.model_dump())\<close>: the schema carries no status, so the column
     default \<open>BookingStatus.PENDING\<close> applies. The only caller has looked the
     provider up before, so the foreign key holds when this runs.\<close>
  "BookingRepository_create d t_created t_updated s =
     (let booking = \<lparr>b_id = next_booking_id s, b_provider_id = bc_provider_id d,
                      b_client_name = bc_client_name d, b_client_phone = bc_client_phone d,
                      b_client_email = bc_client_email d, b_service_type = bc_service_type d,
                      b_scheduled_at = column_value (bc_scheduled_at d), b_status = PENDING,
                      b_notes = bc_notes d,
                      b_created_at = t_created, b_updated_at = t_updated\<rparr>
      in (booking, s\<lparr>bookings := bookings s @ [booking],
                      next_booking_id := next_booking_id s + 1\<rparr>))"

definition BookingRepository_get_by_id :: "int \<Rightarrow> database \<Rightarrow> Booking option" where
  "BookingRepository_get_by_id booking_id s = find (\<lambda>b. b_id b = booking_id) (bookings s)"

definition BookingRepository_list_all ::
    "nat \<Rightarrow> nat \<Rightarrow> int option \<Rightarrow> BookingStatus option \<Rightarrow> datetime option \<Rightarrow> datetime option
      \<Rightarrow> database \<Rightarrow> Booking list" where
  \<comment> \<open>Each \<open>if x:\<close> tests truthiness: \<open>if provider_id:\<close> is false for \<open>None\<close> and
     for \<open>0\<close>; an enum member and a datetime are always true. \<open>order_by\<close> is
     the stable sort of the rows in storage order.\<close>
  "BookingRepository_list_all skip limit provider_id status from_date to_date s =
     (let query = bookings s;
          query = (case provider_id of
                     None \<Rightarrow> query
                   | Some pid \<Rightarrow>
                       if pid = 0 then query else filter (\<lambda>b. b_provider_id b = pid) query);
          query = (case status of
                     None \<Rightarrow> query
                   | Some st \<Rightarrow> filter (\<lambda>b. b_status b = st) query);
          query = (case from_date of
                     None \<Rightarrow> query
                   | Some t \<Rightarrow> filter (\<lambda>b. b_scheduled_at b \<ge> t) query);
          query = (case to_date of
                     None \<Rightarrow> query
                   | Some t \<Rightarrow> filter (\<lambda>b. b_scheduled_at b \<le> t) query)
      in take limit (drop skip (sort_key b_scheduled_at query)))"

definition Booking_setattrs :: "BookingUpdate \<Rightarrow> Booking \<Rightarrow> Booking option" where
  \<comment> \<open>The \<open>setattr\<close> loop over the provided fields; \<open>None\<close> when a NOT NULL column
     (\<open>client_name\<close>, \<open>client_phone\<close>, \<open>scheduled_at\<close>, \<open>status\<close>) was given \<open>None\<close>.\<close>
  "Booking_setattrs d b =
     (case (set_required (bu_client_name d) (b_client_name b),
            set_required (bu_client_phone d) (b_client_phone b),
            set_required (bu_scheduled_at d) (b_scheduled_at b),
            set_required (bu_status d) (b_status b)) of
        (Some n, Some ph, Some t, Some st) \<Rightarrow>
          Some (b\<lparr>b_client_name := n, b_client_phone := ph,
                  b_client_email := set_nullable (bu_client_email d) (b_client_email b),
                  b_service_type := set_nullable (bu_service_type d) (b_service_type b),
                  b_scheduled_at := t, b_status := st,
                  b_notes := set_nullable (bu_notes d) (b_notes b)\<rparr>)
      | _ \<Rightarrow> None)"

definition BookingRepository_update ::
    "int \<Rightarrow> BookingUpdate \<Rightarrow> datetime \<Rightarrow> database \<Rightarrow> (Booking option) outcome" where
  "BookingRepository_update booking_id d now s =
     (case BookingRepository_get_by_id booking_id s of
        None \<Rightarrow> (Inr None, s)
      | Some booking \<Rightarrow>
          (case Booking_setattrs d booking of
             None \<Rightarrow> (Inl IntegrityError, s)
           | Some changed \<Rightarrow>
               (let booking' = touched booking changed (changed\<lparr>b_updated_at := now\<rparr>)
                in (Inr (Some booking'),
                    s\<lparr>bookings :=
                        replace_first (\<lambda>b. b_id b = booking_id) booking' (bookings s)\<rparr>))))"


section \<open>Booking service\<close>

definition create_booking ::
    "BookingCreate \<Rightarrow> datetime \<Rightarrow> datetime \<Rightarrow> datetime \<Rightarrow> database \<Rightarrow> Booking outcome" where
  \<comment> \<open>\<open>now\<close> is the reading of \<open>datetime.utcnow()\<close> in business rule 3.\<close>
  "create_booking d now t_created t_updated s =
     (case ProviderRepository_get_by_id (bc_provider_id d) s of
        None \<Rightarrow> (Inl (ProviderNotFound (bc_provider_id d)), s)
      | Some provider \<Rightarrow>
          if \<not> p_is_active provider then (Inl ProviderNotActive, s)
          else (case datetime_lt (bc_scheduled_at d) now of
                  Inl e \<Rightarrow> (Inl e, s)
                | Inr in_past \<Rightarrow>
                    if in_past then (Inl ScheduledNotInFuture, s)
                    else (let (booking, s') = BookingRepository_create d t_created t_updated s
                          in (Inr booking, s'))))"

definition get_booking :: "int \<Rightarrow> database \<Rightarrow> error + Booking" where
  "get_booking booking_id s =
     (case BookingRepository_get_by_id booking_id s of
        None \<Rightarrow> Inl (BookingNotFound booking_id)
      | Some booking \<Rightarrow> Inr booking)"

definition get_bookings ::
    "nat \<Rightarrow> nat \<Rightarrow> int option \<Rightarrow> BookingStatus option \<Rightarrow> datetime option \<Rightarrow> datetime option
      \<Rightarrow> database \<Rightarrow> Booking list" where
  "get_bookings skip limit provider_id status from_date to_date s =
     BookingRepository_list_all skip limit provider_id status from_date to_date s"

definition update_booking ::
    "int \<Rightarrow> BookingUpdate \<Rightarrow> datetime \<Rightarrow> database \<Rightarrow> Booking outcome" where
  "update_booking booking_id d now s =
     (case BookingRepository_update booking_id d now s of
        (Inl e, s') \<Rightarrow> (Inl e, s')
      | (Inr None, s') \<Rightarrow> (Inl (BookingNotFound booking_id), s')
      | (Inr (Some booking), s') \<Rightarrow> (Inr booking, s'))"

definition BookingUpdate_status :: "BookingStatus \<Rightarrow> BookingUpdate" where
  \<comment> \<open>\<open>BookingUpdate(status=...)\<close>: only \<open>status\<close> is in the set of provided fields.\<close>
  "BookingUpdate_status st =
     \<lparr>bu_client_name = Unset, bu_client_phone = Unset, bu_client_email = Unset,
      bu_service_type = Unset, bu_scheduled_at = Unset, bu_status = Provided (Some st),
      bu_notes = Unset\<rparr>"

definition cancel_booking :: "int \<Rightarrow> datetime \<Rightarrow> database \<Rightarrow> Booking outcome" where
  "cancel_booking booking_id now s =
     (let update_data = BookingUpdate_status CANCELLED
      in update_booking booking_id update_data now s)"



section \<open>Notions the properties are stated with\<close>

definition whitespace_only :: "str \<Rightarrow> bool" where
  \<comment> \<open>Empty, or nothing but whitespace.\<close>
  "whitespace_only s = (\<forall>c \<in> set s. isspace c)"

definition matches_filters ::
    "int option \<Rightarrow> BookingStatus option \<Rightarrow> datetime option \<Rightarrow> datetime option
      \<Rightarrow> Booking \<Rightarrow> bool" where
  \<comment> \<open>The conjunction of the supplied filters: exact provider, exact status,
     and the window \<open>[from_date, to_date]\<close> with both bounds included.\<close>
  "matches_filters provider_id status from_date to_date b =
     ((case provider_id of None \<Rightarrow> True | Some pid \<Rightarrow> b_provider_id b = pid)
      \<and> (case status of None \<Rightarrow> True | Some st \<Rightarrow> b_status b = st)
      \<and> (case from_date of None \<Rightarrow> True | Some t \<Rightarrow> t \<le> b_scheduled_at b)
      \<and> (case to_date of None \<Rightarrow> True | Some t \<Rightarrow> b_scheduled_at b \<le> t))"

section \<open>Sample data\<close>

text \<open>
  The running example: the provider "City Clinic" of sector "medical" with
  id 1, and John Doe's booking with it, scheduled at instant 1000.
\<close>

definition db_empty :: database where
  "db_empty = \<lparr>providers = [], bookings = [], next_provider_id = 1, next_booking_id = 1\<rparr>"

definition city_clinic :: ProviderCreate where
  "city_clinic = \<lparr>pc_name = py ''City Clinic'', pc_sector = py ''medical'',
                   pc_phone = None, pc_email = None, pc_address = None\<rparr>"

definition blank_clinic :: ProviderCreate where
  "blank_clinic = \<lparr>pc_name = py ''  '', pc_sector = py ''medical'',
                    pc_phone = None, pc_email = None, pc_address = None\<rparr>"

definition provider1 :: Provider where
  "provider1 = \<lparr>p_id = 1, p_name = py ''City Clinic'', p_sector = py ''medical'',
                 p_phone = None, p_email = None, p_address = None, p_is_active = True,
                 p_created_at = 10, p_updated_at = 10\<rparr>"

definition db_clinic :: database where
  "db_clinic = \<lparr>providers = [provider1], bookings = [],
                 next_provider_id = 2, next_booking_id = 1\<rparr>"

definition john_doe :: BookingCreate where
  "john_doe = \<lparr>bc_provider_id = 1, bc_client_name = py ''John Doe'',
                bc_client_phone = py ''+1234567890'', bc_client_email = None,
                bc_service_type = None, bc_scheduled_at = Naive 1000, bc_notes = None\<rparr>"

definition booking1 :: Booking where
  "booking1 = \<lparr>b_id = 1, b_provider_id = 1, b_client_name = py ''John Doe'',
                b_client_phone = py ''+1234567890'', b_client_email = None,
                b_service_type = None, b_scheduled_at = 1000, b_status = PENDING,
                b_notes = None, b_created_at = 20, b_updated_at = 20\<rparr>"

definition db_booked :: database where
  "db_booked = \<lparr>providers = [provider1], bookings = [booking1],
                 next_provider_id = 2, next_booking_id = 2\<rparr>"

definition BookingUpdate_empty :: BookingUpdate where
  \<comment> \<open>The payload \<open>{}\<close>.\<close>
  "BookingUpdate_empty =
     \<lparr>bu_client_name = Unset, bu_client_phone = Unset, bu_client_email = Unset,
      bu_service_type = Unset, bu_scheduled_at = Unset, bu_status = Unset, bu_notes = Unset\<rparr>"

definition ProviderUpdate_empty :: ProviderUpdate where
  "ProviderUpdate_empty =
     \<lparr>pu_name = Unset, pu_sector = Unset, pu_phone = Unset, pu_email = Unset,
      pu_address = Unset, pu_is_active = Unset\<rparr>"

definition ProviderUpdate_blank_name :: ProviderUpdate where
  \<comment> \<open>The payload \<open>{"name": " "}\<close>.\<close>
  "ProviderUpdate_blank_name = ProviderUpdate_empty\<lparr>pu_name := Provided (Some (py '' ''))\<rparr>"

definition ProviderUpdate_phone :: ProviderUpdate where
  \<comment> \<open>The payload \<open>{"phone": "555"}\<close>.\<close>
  "ProviderUpdate_phone = ProviderUpdate_empty\<lparr>pu_phone := Provided (Some (py ''555''))\<rparr>"

definition provider1_inactive :: Provider where
  "provider1_inactive = provider1\<lparr>p_is_active := False\<rparr>"

definition db_inactive :: database where
  "db_inactive = \<lparr>providers = [provider1_inactive], bookings = [],
                   next_provider_id = 2, next_booking_id = 1\<rparr>"

definition ProviderUpdate_blank_sector :: ProviderUpdate where
  \<comment> \<open>The payload \<open>{"sector": "\t"}\<close>.\<close>
  "ProviderUpdate_blank_sector = ProviderUpdate_empty\<lparr>pu_sector := Provided (Some [9])\<rparr>"

definition blank_sector_clinic :: ProviderCreate where
  "blank_sector_clinic = city_clinic\<lparr>pc_sector := []\<rparr>"

definition booking1_confirmed :: Booking where
  "booking1_confirmed = booking1\<lparr>b_status := CONFIRMED, b_updated_at := 30\<rparr>"

definition db_confirmed :: database where
  "db_confirmed = db_booked\<lparr>bookings := [booking1_confirmed]\<rparr>"

definition booking1_cancelled :: Booking where
  "booking1_cancelled = booking1\<lparr>b_status := CANCELLED, b_updated_at := 40\<rparr>"

definition db_cancelled :: database where
  "db_cancelled = db_booked\<lparr>bookings := [booking1_cancelled]\<rparr>"

definition provider1_phone :: Provider where
  "provider1_phone = provider1\<lparr>p_phone := Some (py ''555''), p_updated_at := 30\<rparr>"

definition db_phone :: database where
  "db_phone = db_clinic\<lparr>providers := [provider1_phone]\<rparr>"

definition provider1_blank :: Provider where
  "provider1_blank = provider1\<lparr>p_name := py '' '', p_updated_at := 30\<rparr>"

definition db_blank :: database where
  "db_blank = db_clinic\<lparr>providers := [provider1_blank]\<rparr>"

definition john_doe_aware :: BookingCreate where
  \<comment> \<open>The same request with \<open>scheduled_at\<close> written with an offset.\<close>
  "john_doe_aware = john_doe\<lparr>bc_scheduled_at := Aware 1000\<rparr>"

definition booking2 :: Booking where
  "booking2 = booking1\<lparr>b_id := 2, b_created_at := 1000, b_updated_at := 1000\<rparr>"

definition db_booked_twice :: database where
  "db_booked_twice = \<lparr>providers = [provider1], bookings = [booking1, booking2],
                       next_provider_id = 2, next_booking_id = 3\<rparr>"

section \<open>Auxiliary facts\<close>

lemmas sample_defs = db_empty_def city_clinic_def blank_clinic_def provider1_def db_clinic_def
  john_doe_def booking1_def db_booked_def BookingUpdate_empty_def ProviderUpdate_empty_def
  ProviderUpdate_blank_name_def ProviderUpdate_phone_def provider1_inactive_def db_inactive_def
  ProviderUpdate_blank_sector_def blank_sector_clinic_def booking1_confirmed_def db_confirmed_def
  booking1_cancelled_def db_cancelled_def provider1_phone_def db_phone_def provider1_blank_def
  db_blank_def BookingUpdate_status_def john_doe_aware_def booking2_def
  db_booked_twice_def
  py_def Let_def

lemma dropWhile_all_iff: "(\<forall>x \<in> set (dropWhile P xs). P x) \<longleftrightarrow> dropWhile P xs = []"
proof
  assume a: "\<forall>x \<in> set (dropWhile P xs). P x"
  show "dropWhile P xs = []"
  proof (rule ccontr)
    assume n: "dropWhile P xs \<noteq> []"
    then have "\<not> P (hd (dropWhile P xs))" by (rule hd_dropWhile)
    moreover from n have "hd (dropWhile P xs) \<in> set (dropWhile P xs)" by simp
    ultimately show False using a by blast
  qed
qed (auto dest: set_dropWhileD)

lemma strip_empty_iff: "strip s = [] \<longleftrightarrow> whitespace_only s"
proof -
  have "strip s = [] \<longleftrightarrow> (\<forall>x \<in> set (dropWhile isspace s). isspace x)"
    by (simp add: strip_def)
  also have "\<dots> \<longleftrightarrow> dropWhile isspace s = []" by (rule dropWhile_all_iff)
  also have "\<dots> \<longleftrightarrow> whitespace_only s"
    by (simp add: whitespace_only_def)
  finally show ?thesis .
qed

lemma find_SomeD: "find P xs = Some x \<Longrightarrow> P x \<and> x \<in> set xs"
  by (induction xs) (auto split: if_splits)

lemma find_replace_first:
  "find P xs = Some x \<Longrightarrow> P y \<Longrightarrow> find P (replace_first P y xs) = Some y"
  by (induction xs) (auto split: if_splits)

lemma replace_first_same: "find P xs = Some x \<Longrightarrow> replace_first P x xs = xs"
  by (induction xs) (auto split: if_splits)


lemma remove1_neq: "x \<in> set xs \<Longrightarrow> remove1 x xs \<noteq> xs"
proof
  assume mem: "x \<in> set xs" and eq: "remove1 x xs = xs"
  from mem have "length (remove1 x xs) = length xs - 1" by (simp add: length_remove1)
  with eq have "length xs = length xs - 1" by simp
  moreover from mem have "0 < length xs" by (cases xs) auto
  ultimately show False by arith
qed

lemma create_booking_cases:
  "create_booking d now tc tu s =
     (case ProviderRepository_get_by_id (bc_provider_id d) s of
        None \<Rightarrow> (Inl (ProviderNotFound (bc_provider_id d)), s)
      | Some p \<Rightarrow>
          if \<not> p_is_active p then (Inl ProviderNotActive, s)
          else (case bc_scheduled_at d of
                  Aware t \<Rightarrow> (Inl TypeError, s)
                | Naive t \<Rightarrow>
                    if t < now then (Inl ScheduledNotInFuture, s)
                    else (Inr (fst (BookingRepository_create d tc tu s)),
                          snd (BookingRepository_create d tc tu s))))"
  by (simp add: create_booking_def datetime_lt_def
      split: option.splits prod.splits request_datetime.splits)

lemma john_doe_provider:
  "ProviderRepository_get_by_id (bc_provider_id john_doe) db_clinic = Some provider1"
  by (simp add: ProviderRepository_get_by_id_def sample_defs)

lemma set_required_Unset: "set_required Unset old = Some old"
  by (simp add: set_required_def)

lemma set_nullable_Unset: "set_nullable Unset old = old"
  by (simp add: set_nullable_def)

lemma Booking_setattrs_frame:
  assumes "Booking_setattrs d b = Some c"
  shows "b_id c = b_id b" "b_provider_id c = b_provider_id b"
    "b_created_at c = b_created_at b" "b_updated_at c = b_updated_at b"
    "bu_client_name d = Unset \<Longrightarrow> b_client_name c = b_client_name b"
    "bu_client_phone d = Unset \<Longrightarrow> b_client_phone c = b_client_phone b"
    "bu_client_email d = Unset \<Longrightarrow> b_client_email c = b_client_email b"
    "bu_service_type d = Unset \<Longrightarrow> b_service_type c = b_service_type b"
    "bu_scheduled_at d = Unset \<Longrightarrow> b_scheduled_at c = b_scheduled_at b"
    "bu_status d = Unset \<Longrightarrow> b_status c = b_status b"
    "bu_notes d = Unset \<Longrightarrow> b_notes c = b_notes b"
  using assms
  by (auto simp: Booking_setattrs_def set_required_Unset set_nullable_Unset
      split: option.splits)

lemma Provider_setattrs_frame:
  assumes "Provider_setattrs d p = Some c"
  shows "p_id c = p_id p" "p_created_at c = p_created_at p" "p_updated_at c = p_updated_at p"
    "pu_name d = Unset \<Longrightarrow> p_name c = p_name p"
    "pu_sector d = Unset \<Longrightarrow> p_sector c = p_sector p"
    "pu_phone d = Unset \<Longrightarrow> p_phone c = p_phone p"
    "pu_email d = Unset \<Longrightarrow> p_email c = p_email p"
    "pu_address d = Unset \<Longrightarrow> p_address c = p_address p"
    "pu_is_active d = Unset \<Longrightarrow> p_is_active c = p_is_active p"
  using assms
  by (auto simp: Provider_setattrs_def set_required_Unset set_nullable_Unset
      split: option.splits)

lemma BookingRepository_update_found:
  assumes "BookingRepository_get_by_id i s = Some b"
    and "BookingRepository_update i d now s = (Inr (Some b'), s')"
  shows "\<exists>c. Booking_setattrs d b = Some c
           \<and> b' = (if c = b then b else c\<lparr>b_updated_at := now\<rparr>)
           \<and> s' = s\<lparr>bookings := replace_first (\<lambda>x. b_id x = i) b' (bookings s)\<rparr>"
proof (cases "Booking_setattrs d b")
  case None
  with assms show ?thesis by (simp add: BookingRepository_update_def)
next
  case (Some c)
  with assms have "b' = touched b c (c\<lparr>b_updated_at := now\<rparr>)"
    and "s' = s\<lparr>bookings := replace_first (\<lambda>x. b_id x = i) b' (bookings s)\<rparr>"
    by (auto simp: BookingRepository_update_def Let_def)
  with Some show ?thesis by (simp add: touched_def)
qed

lemma ProviderRepository_update_found:
  assumes "ProviderRepository_get_by_id i s = Some p"
    and "ProviderRepository_update i d now s = (Inr (Some p'), s')"
  shows "\<exists>c. Provider_setattrs d p = Some c
           \<and> p' = (if c = p then p else c\<lparr>p_updated_at := now\<rparr>)
           \<and> s' = s\<lparr>providers := replace_first (\<lambda>x. p_id x = i) p' (providers s)\<rparr>"
proof (cases "Provider_setattrs d p")
  case None
  with assms show ?thesis by (simp add: ProviderRepository_update_def)
next
  case (Some c)
  with assms have "p' = touched p c (c\<lparr>p_updated_at := now\<rparr>)"
    and "s' = s\<lparr>providers := replace_first (\<lambda>x. p_id x = i) p' (providers s)\<rparr>"
    by (auto simp: ProviderRepository_update_def Let_def)
  with Some show ?thesis by (simp add: touched_def)
qed

lemma booking_update_frame:
  assumes g: "BookingRepository_get_by_id i s = Some b"
    and u: "BookingRepository_update i d now s = (Inr (Some b'), s')"
  shows "b_id b' = b_id b \<and> b_provider_id b' = b_provider_id b
     \<and> b_created_at b' = b_created_at b
     \<and> (bu_client_name d = Unset \<longrightarrow> b_client_name b' = b_client_name b)
     \<and> (bu_client_phone d = Unset \<longrightarrow> b_client_phone b' = b_client_phone b)
     \<and> (bu_client_email d = Unset \<longrightarrow> b_client_email b' = b_client_email b)
     \<and> (bu_service_type d = Unset \<longrightarrow> b_service_type b' = b_service_type b)
     \<and> (bu_scheduled_at d = Unset \<longrightarrow> b_scheduled_at b' = b_scheduled_at b)
     \<and> (bu_status d = Unset \<longrightarrow> b_status b' = b_status b)
     \<and> (bu_notes d = Unset \<longrightarrow> b_notes b' = b_notes b)
     \<and> BookingRepository_get_by_id i s' = Some b'"
proof -
  from BookingRepository_update_found [OF g u] obtain c where
    c: "Booking_setattrs d b = Some c"
    and b': "b' = (if c = b then b else c\<lparr>b_updated_at := now\<rparr>)"
    and s': "s' = s\<lparr>bookings := replace_first (\<lambda>x. b_id x = i) b' (bookings s)\<rparr>"
    by blast
  note fr = Booking_setattrs_frame [OF c]
  from g have "b_id b = i"
    using find_SomeD [of "\<lambda>x. b_id x = i" "bookings s" b]
    by (simp add: BookingRepository_get_by_id_def)
  with b' fr(1) have "b_id b' = i" by (simp split: if_splits)
  with g s' have "BookingRepository_get_by_id i s' = Some b'"
    by (simp add: BookingRepository_get_by_id_def find_replace_first)
  with b' fr show ?thesis by (simp split: if_splits)
qed

lemma provider_update_frame:
  assumes g: "ProviderRepository_get_by_id i s = Some p"
    and u: "ProviderRepository_update i d now s = (Inr (Some p'), s')"
  shows "p_id p' = p_id p \<and> p_created_at p' = p_created_at p
     \<and> (pu_name d = Unset \<longrightarrow> p_name p' = p_name p)
     \<and> (pu_sector d = Unset \<longrightarrow> p_sector p' = p_sector p)
     \<and> (pu_phone d = Unset \<longrightarrow> p_phone p' = p_phone p)
     \<and> (pu_email d = Unset \<longrightarrow> p_email p' = p_email p)
     \<and> (pu_address d = Unset \<longrightarrow> p_address p' = p_address p)
     \<and> (pu_is_active d = Unset \<longrightarrow> p_is_active p' = p_is_active p)
     \<and> ProviderRepository_get_by_id i s' = Some p'"
proof -
  from ProviderRepository_update_found [OF g u] obtain c where
    c: "Provider_setattrs d p = Some c"
    and p': "p' = (if c = p then p else c\<lparr>p_updated_at := now\<rparr>)"
    and s': "s' = s\<lparr>providers := replace_first (\<lambda>x. p_id x = i) p' (providers s)\<rparr>"
    by blast
  note fr = Provider_setattrs_frame [OF c]
  from g have "p_id p = i"
    using find_SomeD [of "\<lambda>x. p_id x = i" "providers s" p]
    by (simp add: ProviderRepository_get_by_id_def)
  with p' fr(1) have "p_id p' = i" by (simp split: if_splits)
  with g s' have "ProviderRepository_get_by_id i s' = Some p'"
    by (simp add: ProviderRepository_get_by_id_def find_replace_first)
  with p' fr show ?thesis by (simp split: if_splits)
qed

lemma booking_update_stamp:
  assumes g: "BookingRepository_get_by_id i s = Some b"
    and u: "BookingRepository_update i d now s = (Inr (Some b'), s')"
  shows "(Booking_setattrs d b = Some b \<longrightarrow> b' = b \<and> s' = s)
     \<and> (Booking_setattrs d b \<noteq> Some b \<longrightarrow>
          b_updated_at b' = now \<and> (b_updated_at b < now \<longrightarrow> b_updated_at b < b_updated_at b'))"
proof -
  from BookingRepository_update_found [OF g u] obtain c where
    c: "Booking_setattrs d b = Some c"
    and b': "b' = (if c = b then b else c\<lparr>b_updated_at := now\<rparr>)"
    and s': "s' = s\<lparr>bookings := replace_first (\<lambda>x. b_id x = i) b' (bookings s)\<rparr>"
    by blast
  from g have "replace_first (\<lambda>x. b_id x = i) b (bookings s) = bookings s"
    by (simp add: BookingRepository_get_by_id_def replace_first_same)
  then have same: "s\<lparr>bookings := replace_first (\<lambda>x. b_id x = i) b (bookings s)\<rparr> = s"
    by simp
  show ?thesis
  proof (cases "c = b")
    case True
    with c b' s' same show ?thesis by simp
  next
    case False
    with c b' show ?thesis by simp
  qed
qed

lemma provider_update_stamp:
  assumes g: "ProviderRepository_get_by_id i s = Some p"
    and u: "ProviderRepository_update i d now s = (Inr (Some p'), s')"
  shows "(Provider_setattrs d p = Some p \<longrightarrow> p' = p \<and> s' = s)
     \<and> (Provider_setattrs d p \<noteq> Some p \<longrightarrow>
          p_updated_at p' = now \<and> (p_updated_at p < now \<longrightarrow> p_updated_at p < p_updated_at p'))"
proof -
  from ProviderRepository_update_found [OF g u] obtain c where
    c: "Provider_setattrs d p = Some c"
    and p': "p' = (if c = p then p else c\<lparr>p_updated_at := now\<rparr>)"
    and s': "s' = s\<lparr>providers := replace_first (\<lambda>x. p_id x = i) p' (providers s)\<rparr>"
    by blast
  from g have "replace_first (\<lambda>x. p_id x = i) p (providers s) = providers s"
    by (simp add: ProviderRepository_get_by_id_def replace_first_same)
  then have same: "s\<lparr>providers := replace_first (\<lambda>x. p_id x = i) p (providers s)\<rparr> = s"
    by simp
  show ?thesis
  proof (cases "c = p")
    case True
    with c p' s' same show ?thesis by simp
  next
    case False
    with c p' show ?thesis by simp
  qed
qed

lemma Booking_status_same: "b\<lparr>b_status := st\<rparr> = b \<longleftrightarrow> b_status b = st"
  by (cases b) auto

lemma Booking_setattrs_status:
  "Booking_setattrs (BookingUpdate_status st) b = Some (b\<lparr>b_status := st\<rparr>)"
  by (simp add: Booking_setattrs_def BookingUpdate_status_def set_required_def
      set_nullable_def)


lemma booking1_found: "BookingRepository_get_by_id 1 db_booked = Some booking1"
  by (simp add: BookingRepository_get_by_id_def sample_defs)

lemma provider1_found: "ProviderRepository_get_by_id 1 db_clinic = Some provider1"
  by (simp add: ProviderRepository_get_by_id_def sample_defs)

lemma confirm_run:
  "BookingRepository_update 1 (BookingUpdate_status CONFIRMED) 30 db_booked
     = (Inr (Some booking1_confirmed), db_confirmed)"
  by (simp add: BookingRepository_update_def BookingRepository_get_by_id_def
      Booking_setattrs_def set_required_def set_nullable_def touched_def sample_defs)

lemma phone_run:
  "ProviderRepository_update 1 ProviderUpdate_phone 30 db_clinic
     = (Inr (Some provider1_phone), db_phone)"
  by (simp add: ProviderRepository_update_def ProviderRepository_get_by_id_def
      Provider_setattrs_def set_required_def set_nullable_def touched_def sample_defs)

section \<open>Booking creation\<close>

text \<open>
  What \<open>create_booking\<close> does on every input. An unknown provider gives the
  not-found error; a known, inactive one the inactive error; with a known,
  active provider an offset-aware \<open>scheduled_at\<close> makes the comparison of rule
  3 raise \<open>TypeError\<close>, a naive one strictly before the instant of the check
  gives the must-be-in-the-future error, and a naive one at or after that
  instant is stored. No error changes the database.
\<close>

lemma create_booking_checks_in_order:
  "(ProviderRepository_get_by_id (bc_provider_id d) s = None \<longrightarrow>
      create_booking d now tc tu s = (Inl (ProviderNotFound (bc_provider_id d)), s))
   \<and> (\<forall>p. ProviderRepository_get_by_id (bc_provider_id d) s = Some p \<and> \<not> p_is_active p \<longrightarrow>
      create_booking d now tc tu s = (Inl ProviderNotActive, s))
   \<and> (\<forall>p t. ProviderRepository_get_by_id (bc_provider_id d) s = Some p \<and> p_is_active p
          \<and> bc_scheduled_at d = Aware t \<longrightarrow>
      create_booking d now tc tu s = (Inl TypeError, s))
   \<and> (\<forall>p t. ProviderRepository_get_by_id (bc_provider_id d) s = Some p \<and> p_is_active p
          \<and> bc_scheduled_at d = Naive t \<and> t < now \<longrightarrow>
      create_booking d now tc tu s = (Inl ScheduledNotInFuture, s))
   \<and> (\<forall>e s'. create_booking d now tc tu s = (Inl e, s') \<longrightarrow> s' = s)
   \<and> (\<forall>b s'. create_booking d now tc tu s = (Inr b, s') \<longrightarrow>
        (\<exists>p. ProviderRepository_get_by_id (bc_provider_id d) s = Some p \<and> p_is_active p)
        \<and> (\<exists>t. bc_scheduled_at d = Naive t \<and> now \<le> t)
        \<and> bookings s' = bookings s @ [b])"
  by (auto simp: create_booking_cases BookingRepository_create_def Let_def
      split: option.splits if_splits request_datetime.splits)

lemma create_booking_first_failure_runs:
  "create_booking john_doe 2000 20 20 db_empty = (Inl (ProviderNotFound 1), db_empty)
   \<and> create_booking john_doe 2000 20 20 db_inactive = (Inl ProviderNotActive, db_inactive)
   \<and> create_booking john_doe_aware 2000 20 20 db_inactive = (Inl ProviderNotActive, db_inactive)
   \<and> create_booking john_doe 2000 20 20 db_clinic = (Inl ScheduledNotInFuture, db_clinic)
   \<and> create_booking john_doe_aware 2000 20 20 db_clinic = (Inl TypeError, db_clinic)
   \<and> create_booking john_doe_aware 500 20 20 db_clinic = (Inl TypeError, db_clinic)
   \<and> create_booking john_doe 500 20 20 db_clinic = (Inr booking1, db_booked)"
  by (simp add: create_booking_def datetime_lt_def column_value_def
      ProviderRepository_get_by_id_def BookingRepository_create_def sample_defs)

text \<open>
  Claim C1, where the code departs from it. The claim, like the docstring of
  \<open>create_booking\<close> and the message it raises ("Scheduled time must be in the
  future"), asks creation to fail whenever \<open>scheduled_at \<le> now\<close>. Rule 3
  compares with \<open><\<close>: John Doe's booking is scheduled at instant 1000, the
  check reads the clock at 1000, the provider exists and is active, and the
  booking is stored.
\<close>

theorem create_booking_at_now_accepted:
  "bc_scheduled_at john_doe = Naive 1000
   \<and> ProviderRepository_get_by_id (bc_provider_id john_doe) db_clinic = Some provider1
   \<and> p_is_active provider1
   \<and> create_booking john_doe 1000 20 20 db_clinic = (Inr booking1, db_booked)
   \<and> bookings db_clinic = [] \<and> bookings db_booked = [booking1]"
  by (simp add: create_booking_def datetime_lt_def column_value_def
      ProviderRepository_get_by_id_def BookingRepository_create_def sample_defs)

text \<open>
  Claim C2. Every successful \<open>create_booking\<close> returns a booking whose status
  is \<open>PENDING\<close>, and that booking is the row appended to the table. The
  caller cannot influence it: \<open>BookingCreate\<close> has no status field, and
  \<open>BookingRepository.create\<close> takes the column default.
\<close>

theorem create_booking_status_pending:
  "create_booking d now tc tu s = (Inr b, s') \<Longrightarrow>
     b_status b = PENDING \<and> bookings s' = bookings s @ [b]"
  by (auto simp: create_booking_cases BookingRepository_create_def Let_def
      split: option.splits if_splits request_datetime.splits)

theorem create_booking_status_pending_witness:
  "create_booking john_doe 500 20 20 db_clinic = (Inr booking1, db_booked)
   \<and> b_status booking1 = PENDING \<and> bookings db_booked = bookings db_clinic @ [booking1]"
proof -
  have run: "create_booking john_doe 500 20 20 db_clinic = (Inr booking1, db_booked)"
    by (simp add: create_booking_def datetime_lt_def column_value_def
        ProviderRepository_get_by_id_def BookingRepository_create_def sample_defs)
  from run create_booking_status_pending [OF run] show ?thesis by simp
qed

text \<open>
  Claim C5, where the code departs from it. The order of the three checks is
  as claimed, and no failure changes the database. The third check is not:
  the claim wants a \<open>scheduled_at\<close> that is not in the future to end in the
  must-be-in-the-future error. With booking 1 already stored, a second
  request for the active provider 1, scheduled at instant 1000 and checked at
  instant 1000, passes all three checks and is stored as booking 2.
\<close>

theorem create_booking_third_check_passes_at_now:
  "ProviderRepository_get_by_id (bc_provider_id john_doe) db_booked = Some provider1
   \<and> p_is_active provider1
   \<and> bc_scheduled_at john_doe = Naive 1000
   \<and> create_booking john_doe 1000 1000 1000 db_booked = (Inr booking2, db_booked_twice)
   \<and> fst (create_booking john_doe 1000 1000 1000 db_booked) \<noteq> Inl ScheduledNotInFuture
   \<and> bookings db_booked_twice = bookings db_booked @ [booking2]"
  by (simp add: create_booking_def datetime_lt_def column_value_def
      ProviderRepository_get_by_id_def BookingRepository_create_def sample_defs)

section \<open>Partial update\<close>

text \<open>
  Claim C4. A successful \<open>update\<close> of an existing booking or provider changes
  only fields the payload provides: every updatable field the payload leaves
  out has the value it had before, and so have \<open>id\<close>, \<open>provider_id\<close> and
  \<open>created_at\<close>, which no payload can carry. The returned row is the one the
  table holds afterwards. (\<open>updated_at\<close> is managed by the server and is the
  subject of C7.)
\<close>

theorem update_keeps_absent_fields:
  "(BookingRepository_get_by_id booking_id s = Some b
      \<and> BookingRepository_update booking_id d now s = (Inr (Some b'), s') \<longrightarrow>
        b_id b' = b_id b \<and> b_provider_id b' = b_provider_id b
        \<and> b_created_at b' = b_created_at b
        \<and> (bu_client_name d = Unset \<longrightarrow> b_client_name b' = b_client_name b)
        \<and> (bu_client_phone d = Unset \<longrightarrow> b_client_phone b' = b_client_phone b)
        \<and> (bu_client_email d = Unset \<longrightarrow> b_client_email b' = b_client_email b)
        \<and> (bu_service_type d = Unset \<longrightarrow> b_service_type b' = b_service_type b)
        \<and> (bu_scheduled_at d = Unset \<longrightarrow> b_scheduled_at b' = b_scheduled_at b)
        \<and> (bu_status d = Unset \<longrightarrow> b_status b' = b_status b)
        \<and> (bu_notes d = Unset \<longrightarrow> b_notes b' = b_notes b)
        \<and> BookingRepository_get_by_id booking_id s' = Some b')
   \<and> (ProviderRepository_get_by_id provider_id t = Some p
      \<and> ProviderRepository_update provider_id e now' t = (Inr (Some p'), t') \<longrightarrow>
        p_id p' = p_id p \<and> p_created_at p' = p_created_at p
        \<and> (pu_name e = Unset \<longrightarrow> p_name p' = p_name p)
        \<and> (pu_sector e = Unset \<longrightarrow> p_sector p' = p_sector p)
        \<and> (pu_phone e = Unset \<longrightarrow> p_phone p' = p_phone p)
        \<and> (pu_email e = Unset \<longrightarrow> p_email p' = p_email p)
        \<and> (pu_address e = Unset \<longrightarrow> p_address p' = p_address p)
        \<and> (pu_is_active e = Unset \<longrightarrow> p_is_active p' = p_is_active p)
        \<and> ProviderRepository_get_by_id provider_id t' = Some p')"
  using booking_update_frame [of booking_id s b d now b' s']
    provider_update_frame [of provider_id t p e now' p' t']
  by blast

theorem update_keeps_absent_fields_witness:
  "BookingRepository_update 1 (BookingUpdate_status CONFIRMED) 30 db_booked
     = (Inr (Some booking1_confirmed), db_confirmed)
   \<and> bu_client_name (BookingUpdate_status CONFIRMED) = Unset
   \<and> b_client_name booking1_confirmed = b_client_name booking1
   \<and> b_scheduled_at booking1_confirmed = b_scheduled_at booking1
   \<and> b_status booking1_confirmed = CONFIRMED \<and> b_status booking1 = PENDING
   \<and> BookingRepository_get_by_id 1 db_confirmed = Some booking1_confirmed
   \<and> ProviderRepository_update 1 ProviderUpdate_phone 30 db_clinic
     = (Inr (Some provider1_phone), db_phone)
   \<and> pu_name ProviderUpdate_phone = Unset
   \<and> p_name provider1_phone = p_name provider1
   \<and> p_is_active provider1_phone = p_is_active provider1
   \<and> ProviderRepository_get_by_id 1 db_phone = Some provider1_phone"
proof -
  have unset: "bu_client_name (BookingUpdate_status CONFIRMED) = Unset"
    "bu_scheduled_at (BookingUpdate_status CONFIRMED) = Unset"
    "pu_name ProviderUpdate_phone = Unset" "pu_is_active ProviderUpdate_phone = Unset"
    by (simp_all add: sample_defs)
  have st: "b_status booking1_confirmed = CONFIRMED" "b_status booking1 = PENDING"
    by (simp_all add: sample_defs)
  from booking1_found provider1_found confirm_run phone_run unset st
    update_keeps_absent_fields [of 1 db_booked booking1 "BookingUpdate_status CONFIRMED" 30
      booking1_confirmed db_confirmed 1 db_clinic provider1 ProviderUpdate_phone 30
      provider1_phone db_phone]
  show ?thesis by simp
qed

text \<open>
  Claim C7, as amended. \<open>updated_at\<close> is written by the column's
  \<open>onupdate\<close> hook, which runs only when the commit sends an UPDATE, that is
  when some attribute has a net change. After a successful update that
  changes at least one field, \<open>updated_at\<close> is the clock reading of that
  update, hence strictly greater than before whenever that reading is later
  than the stored value. After a successful update whose payload is empty, or
  whose values all equal the current ones, \<open>updated_at\<close> is unchanged.
\<close>

theorem update_refreshes_updated_at:
  "(BookingRepository_get_by_id booking_id s = Some b
      \<and> BookingRepository_update booking_id d now s = (Inr (Some b'), s') \<longrightarrow>
        (Booking_setattrs d b = Some b \<longrightarrow> b_updated_at b' = b_updated_at b)
        \<and> (Booking_setattrs d b \<noteq> Some b \<longrightarrow>
             b_updated_at b' = now
             \<and> (b_updated_at b < now \<longrightarrow> b_updated_at b < b_updated_at b')))
   \<and> (ProviderRepository_get_by_id provider_id t = Some p
      \<and> ProviderRepository_update provider_id e now' t = (Inr (Some p'), t') \<longrightarrow>
        (Provider_setattrs e p = Some p \<longrightarrow> p_updated_at p' = p_updated_at p)
        \<and> (Provider_setattrs e p \<noteq> Some p \<longrightarrow>
             p_updated_at p' = now'
             \<and> (p_updated_at p < now' \<longrightarrow> p_updated_at p < p_updated_at p')))"
  using booking_update_stamp [of booking_id s b d now b' s']
    provider_update_stamp [of provider_id t p e now' p' t']
  by blast

theorem update_refreshes_updated_at_witness:
  "BookingRepository_update 1 (BookingUpdate_status CONFIRMED) 30 db_booked
     = (Inr (Some booking1_confirmed), db_confirmed)
   \<and> Booking_setattrs (BookingUpdate_status CONFIRMED) booking1 \<noteq> Some booking1
   \<and> b_updated_at booking1 = 20 \<and> b_updated_at booking1_confirmed = 30
   \<and> b_updated_at booking1 < b_updated_at booking1_confirmed
   \<and> ProviderRepository_update 1 ProviderUpdate_phone 30 db_clinic
     = (Inr (Some provider1_phone), db_phone)
   \<and> Provider_setattrs ProviderUpdate_phone provider1 \<noteq> Some provider1
   \<and> p_updated_at provider1 = 10
   \<and> p_updated_at provider1 < p_updated_at provider1_phone"
proof -
  have ch: "Booking_setattrs (BookingUpdate_status CONFIRMED) booking1 \<noteq> Some booking1"
    "Provider_setattrs ProviderUpdate_phone provider1 \<noteq> Some provider1"
    by (simp_all add: Booking_setattrs_def Provider_setattrs_def set_required_def
        set_nullable_def sample_defs)
  have old: "b_updated_at booking1 = 20" "p_updated_at provider1 = 10"
    by (simp_all add: sample_defs)
  from booking1_found provider1_found confirm_run phone_run ch old
    update_refreshes_updated_at [of 1 db_booked booking1 "BookingUpdate_status CONFIRMED" 30
      booking1_confirmed db_confirmed 1 db_clinic provider1 ProviderUpdate_phone 30
      provider1_phone db_phone]
  show ?thesis by simp
qed

text \<open>
  The input that refutes C7 as stated: booking 1 was last updated at instant
  20; an update with the empty payload at instant 5000 succeeds, and so does
  one that sets the status to the value it already has; both return the row
  as it was, \<open>updated_at\<close> still 20.
\<close>

theorem update_empty_payload_keeps_updated_at:
  "BookingRepository_get_by_id 1 db_booked = Some booking1
   \<and> b_updated_at booking1 = 20
   \<and> BookingRepository_update 1 BookingUpdate_empty 5000 db_booked
        = (Inr (Some booking1), db_booked)
   \<and> BookingRepository_update 1 (BookingUpdate_status PENDING) 5000 db_booked
        = (Inr (Some booking1), db_booked)
   \<and> \<not> b_updated_at booking1 < b_updated_at booking1"
  by (simp add: BookingRepository_update_def BookingRepository_get_by_id_def
      Booking_setattrs_def set_required_def set_nullable_def touched_def sample_defs)

section \<open>Cancelling\<close>

lemma update_booking_missing:
  "BookingRepository_get_by_id i s = None \<Longrightarrow>
     update_booking i d now s = (Inl (BookingNotFound i), s)"
  by (simp add: update_booking_def BookingRepository_update_def)

lemma cancel_booking_found:
  assumes g: "BookingRepository_get_by_id i s = Some b"
  shows "cancel_booking i now s =
     (Inr (b\<lparr>b_status := CANCELLED,
             b_updated_at := (if b_status b = CANCELLED then b_updated_at b else now)\<rparr>),
      s\<lparr>bookings := replace_first (\<lambda>x. b_id x = i)
          (b\<lparr>b_status := CANCELLED,
             b_updated_at := (if b_status b = CANCELLED then b_updated_at b else now)\<rparr>)
          (bookings s)\<rparr>)"
proof (cases "b_status b = CANCELLED")
  case True
  then have eq: "b\<lparr>b_status := CANCELLED\<rparr> = b" by (simp add: Booking_status_same)
  from g True show ?thesis
    by (simp add: cancel_booking_def update_booking_def BookingRepository_update_def
        Booking_setattrs_status touched_def Let_def eq)
next
  case False
  then have "b\<lparr>b_status := CANCELLED\<rparr> \<noteq> b" by (simp add: Booking_status_same)
  with g False show ?thesis
    by (simp add: cancel_booking_def update_booking_def BookingRepository_update_def
        Booking_setattrs_status touched_def Let_def)
qed

lemma cancel_booking_twice:
  assumes g: "BookingRepository_get_by_id i s = Some b"
  shows "\<exists>b' s'. cancel_booking i now s = (Inr b', s')
     \<and> b' = b\<lparr>b_status := CANCELLED,
               b_updated_at := (if b_status b = CANCELLED then b_updated_at b else now)\<rparr>
     \<and> BookingRepository_get_by_id i s' = Some b'
     \<and> cancel_booking i later s' = (Inr b', s')"
proof -
  define b' where "b' = b\<lparr>b_status := CANCELLED,
      b_updated_at := (if b_status b = CANCELLED then b_updated_at b else now)\<rparr>"
  define s' where "s' = s\<lparr>bookings := replace_first (\<lambda>x. b_id x = i) b' (bookings s)\<rparr>"
  have first: "cancel_booking i now s = (Inr b', s')"
    unfolding b'_def s'_def by (rule cancel_booking_found [OF g])
  from g have "b_id b = i"
    using find_SomeD [of "\<lambda>x. b_id x = i" "bookings s" b]
    by (simp add: BookingRepository_get_by_id_def)
  then have "b_id b' = i" by (simp add: b'_def)
  with g have g': "BookingRepository_get_by_id i s' = Some b'"
    by (simp add: s'_def BookingRepository_get_by_id_def find_replace_first)
  have st: "b_status b' = CANCELLED" by (simp add: b'_def)
  have same: "b'\<lparr>b_status := CANCELLED, b_updated_at := b_updated_at b'\<rparr> = b'"
    using st by (cases b') auto
  from g' have "replace_first (\<lambda>x. b_id x = i) b' (bookings s') = bookings s'"
    by (simp add: BookingRepository_get_by_id_def replace_first_same)
  with cancel_booking_found [OF g', of later] st same
  have second: "cancel_booking i later s' = (Inr b', s')" by simp
  from first g' second show ?thesis by (simp add: b'_def)
qed

text \<open>
  Claim C6. \<open>cancel_booking\<close> is \<open>update_booking\<close> with the payload
  \<open>{status: cancelled}\<close>. On a missing id it raises the not-found error of
  the update path and changes nothing. On an existing booking, whatever its
  status (pending, confirmed, completed or cancelled already), it succeeds:
  the status becomes \<open>CANCELLED\<close>, \<open>updated_at\<close> is refreshed as the update
  path does it, and nothing else changes. Cancelling again returns the same
  row and leaves the database as the first cancel left it.
\<close>

theorem cancel_booking_forces_cancelled:
  "cancel_booking booking_id now s
     = update_booking booking_id (BookingUpdate_status CANCELLED) now s
   \<and> (BookingRepository_get_by_id booking_id s = None \<longrightarrow>
        cancel_booking booking_id now s = (Inl (BookingNotFound booking_id), s))
   \<and> (\<forall>b. BookingRepository_get_by_id booking_id s = Some b \<longrightarrow>
        (\<exists>b' s'. cancel_booking booking_id now s = (Inr b', s')
           \<and> b' = b\<lparr>b_status := CANCELLED,
                     b_updated_at := (if b_status b = CANCELLED then b_updated_at b else now)\<rparr>
           \<and> BookingRepository_get_by_id booking_id s' = Some b'
           \<and> cancel_booking booking_id later s' = (Inr b', s')))"
proof (intro conjI allI impI)
  show "cancel_booking booking_id now s
     = update_booking booking_id (BookingUpdate_status CANCELLED) now s"
    by (simp add: cancel_booking_def)
next
  assume "BookingRepository_get_by_id booking_id s = None"
  then show "cancel_booking booking_id now s = (Inl (BookingNotFound booking_id), s)"
    by (simp add: cancel_booking_def update_booking_missing)
next
  fix b
  assume "BookingRepository_get_by_id booking_id s = Some b"
  then show "\<exists>b' s'. cancel_booking booking_id now s = (Inr b', s')
           \<and> b' = b\<lparr>b_status := CANCELLED,
                     b_updated_at := (if b_status b = CANCELLED then b_updated_at b else now)\<rparr>
           \<and> BookingRepository_get_by_id booking_id s' = Some b'
           \<and> cancel_booking booking_id later s' = (Inr b', s')"
    by (rule cancel_booking_twice)
qed

theorem cancel_booking_forces_cancelled_witness:
  "cancel_booking 7 40 db_booked = (Inl (BookingNotFound 7), db_booked)
   \<and> cancel_booking 1 40 db_booked = (Inr booking1_cancelled, db_cancelled)
   \<and> cancel_booking 1 50 db_cancelled = (Inr booking1_cancelled, db_cancelled)
   \<and> b_status booking1_cancelled = CANCELLED"
proof -
  have missing: "BookingRepository_get_by_id 7 db_booked = None"
    by (simp add: BookingRepository_get_by_id_def sample_defs)
  have first: "cancel_booking 1 40 db_booked = (Inr booking1_cancelled, db_cancelled)"
    by (simp add: cancel_booking_def update_booking_def BookingRepository_update_def
        BookingRepository_get_by_id_def Booking_setattrs_def set_required_def
        set_nullable_def touched_def sample_defs)
  have st: "b_status booking1_cancelled = CANCELLED" by (simp add: sample_defs)
  from missing booking1_found first st
    cancel_booking_forces_cancelled [of 7 40 db_booked 50]
    cancel_booking_forces_cancelled [of 1 40 db_booked 50]
  show ?thesis by auto
qed

section \<open>Deleting\<close>












section \<open>Listing bookings\<close>

text \<open>
  With any \<open>provider_id\<close> filter other than \<open>0\<close>, \<open>list_all\<close> returns the rows
  that satisfy all supplied filters, sorted by \<open>scheduled_at\<close>, then paged;
  and its result is sorted for every input.
\<close>

lemma list_all_filters:
  "pid \<noteq> Some 0 \<Longrightarrow>
     BookingRepository_list_all skip limit pid st from_date to_date s =
       take limit (drop skip (sort_key b_scheduled_at
         (filter (matches_filters pid st from_date to_date) (bookings s))))"
  by (cases pid; cases st; cases from_date; cases to_date)
    (simp_all add: BookingRepository_list_all_def matches_filters_def [abs_def])

lemma list_all_sorted:
  "sorted (map b_scheduled_at
     (BookingRepository_list_all skip limit pid st from_date to_date s))"
proof -
  have "sorted (map b_scheduled_at (take limit (drop skip (sort_key b_scheduled_at xs))))" for xs
    by (simp add: take_map [symmetric] drop_map [symmetric] sorted_wrt_take sorted_wrt_drop
        del: take_map drop_map)
  then show ?thesis by (simp add: BookingRepository_list_all_def Let_def)
qed

text \<open>
  Claim C3, where the code departs from it. \<open>if provider_id:\<close> tests
  truthiness, so the filter \<open>provider_id = 0\<close> is dropped like an absent one:
  asked for the bookings of provider 0, \<open>list_all\<close> returns the booking of
  provider 1, while no stored booking satisfies the filter.
\<close>

theorem list_all_provider_zero_unfiltered:
  "BookingRepository_list_all 0 100 (Some 0) None None None db_booked = [booking1]
   \<and> b_provider_id booking1 = 1
   \<and> filter (matches_filters (Some 0) None None None) (bookings db_booked) = []"
  by (simp add: BookingRepository_list_all_def matches_filters_def sample_defs)

section \<open>Provider registration\<close>

text \<open>
  Claim C9. \<open>register_provider\<close> rejects a name that is empty or
  whitespace-only with the name \<open>ValueError\<close>, and otherwise a sector that is
  empty or whitespace-only with the sector \<open>ValueError\<close>; in both cases the
  database is left as it was. Every other input is handed to
  \<open>ProviderRepository.create\<close>, whose result is returned.
\<close>

theorem register_provider_rejects_blank:
  "(whitespace_only (pc_name d) \<longrightarrow>
      register_provider d t_created t_updated s = (Inl ProviderNameEmpty, s))
   \<and> (\<not> whitespace_only (pc_name d) \<and> whitespace_only (pc_sector d) \<longrightarrow>
      register_provider d t_created t_updated s = (Inl ProviderSectorEmpty, s))
   \<and> (\<not> whitespace_only (pc_name d) \<and> \<not> whitespace_only (pc_sector d) \<longrightarrow>
      register_provider d t_created t_updated s =
        (case ProviderRepository_create d t_created t_updated s of
           (provider, s') \<Rightarrow> (Inr provider, s')))
   \<and> is_ValueError ProviderNameEmpty \<and> is_ValueError ProviderSectorEmpty"
  by (simp add: register_provider_def strip_empty_iff is_ValueError_def)

theorem register_provider_rejects_blank_witness:
  "whitespace_only (pc_name blank_clinic)
   \<and> register_provider blank_clinic 10 10 db_empty = (Inl ProviderNameEmpty, db_empty)
   \<and> \<not> whitespace_only (pc_name city_clinic) \<and> \<not> whitespace_only (pc_sector city_clinic)
   \<and> whitespace_only (pc_sector blank_sector_clinic)
   \<and> register_provider blank_sector_clinic 10 10 db_empty = (Inl ProviderSectorEmpty, db_empty)
   \<and> register_provider city_clinic 10 10 db_empty = (Inr provider1, db_clinic)"
proof -
  have no_sector: "\<not> whitespace_only (pc_name blank_sector_clinic)"
    "whitespace_only (pc_sector blank_sector_clinic)"
    by (simp_all add: whitespace_only_def blank_sector_clinic_def city_clinic_def py_def
        isspace_def)
  have blank: "whitespace_only (pc_name blank_clinic)"
    by (simp add: whitespace_only_def blank_clinic_def py_def isspace_def)
  have name: "\<not> whitespace_only (pc_name city_clinic)"
    by (simp add: whitespace_only_def city_clinic_def py_def isspace_def)
  have sector: "\<not> whitespace_only (pc_sector city_clinic)"
    by (simp add: whitespace_only_def city_clinic_def py_def isspace_def)
  have created: "ProviderRepository_create city_clinic 10 10 db_empty = (provider1, db_clinic)"
    by (simp add: ProviderRepository_create_def sample_defs)
  from blank name sector created no_sector
    register_provider_rejects_blank [of blank_clinic 10 10 db_empty]
    register_provider_rejects_blank [of blank_sector_clinic 10 10 db_empty]
    register_provider_rejects_blank [of city_clinic 10 10 db_empty]
  show ?thesis by simp
qed

text \<open>
  Claim C10, where the code departs from it. \<open>update_provider\<close> has no
  check on trimmed content, and \<open>ProviderUpdate\<close> only asks for
  \<open>min_length=1\<close>: the provider registered as "City Clinic" takes the
  schema-valid payload \<open>{"name": " "}\<close> and is stored with a name that is
  whitespace only.
\<close>

theorem update_provider_blank_name_stored:
  "register_provider city_clinic 10 10 db_empty = (Inr provider1, db_clinic)
   \<and> ProviderUpdate_valid ProviderUpdate_blank_name
   \<and> update_provider 1 ProviderUpdate_blank_name 30 db_clinic = (Inr provider1_blank, db_blank)
   \<and> providers db_blank = [provider1_blank]
   \<and> p_name provider1_blank = [32]
   \<and> strip (p_name provider1_blank) = []"
  by (simp add: register_provider_def ProviderRepository_create_def update_provider_def
      ProviderRepository_update_def ProviderRepository_get_by_id_def Provider_setattrs_def
      set_required_def set_nullable_def touched_def ProviderUpdate_valid_def field_ok_def
      opt_ok_def len_between_def strip_def isspace_def sample_defs)


end
